theory Spec2Isabelle
  imports Main
begin

section \<open>Data model of LoginModal.vue\<close>

text \<open>
  The three form fields, as the type parameter of \<^verbatim>\<open>useForm\<close> declares them
  (lines 59-63): two strings and a boolean.
\<close>

record login_fields =
  email :: string
  password :: string
  remember :: bool

text \<open>
  An error object maps a key to a message; a key that is absent reads as
  \<^verbatim>\<open>undefined\<close>. Keys are plain strings, so a key outside the three field names
  is carried along unchanged.
\<close>

type_synonym error_map = "string \<rightharpoonup> string"

text \<open>
  \<^verbatim>\<open>inertiaForm\<close>: the fields themselves, the errors reported by the backend and
  the in-flight flag (line 58: "handles data, state(processing), errors from backend").
\<close>

record inertia_form = login_fields +
  errors :: error_map
  processing :: bool

text \<open>The part of the vee-validate form that the component uses: its values and errors.\<close>

record vee_form =
  vee_values :: login_fields
  vee_errors :: error_map

text \<open>A notification handed to \<^verbatim>\<open>toast\<close>: its title and its description.\<close>

datatype toast = Toast_success string string | Toast_error string string

datatype ModalEnum = LOGIN

datatype callback = OnSuccess | OnError | OnFinish

text \<open>A typed write to one field: the name together with a value of that field's type.\<close>

datatype field_write = WriteEmail string | WritePassword string | WriteRemember bool

datatype field = Email | Password | Remember

text \<open>What the transport reports when a submission completes.\<close>

datatype outcome = Success | Failure error_map

text \<open>
  Everything the component reads or writes. \<open>isLoginOpen\<close> is the flag of the modal
  store; \<open>toasts\<close> and \<open>posts\<close> record, in order, the notifications emitted and the
  requests handed to the transport; \<open>callbacks\<close> records which lifecycle callbacks of
  a submission ran, in order (the body of \<^verbatim>\<open>onFinish\<close> is empty, so this is the only
  trace it leaves). The four \<open>seen_\<close> fields are the values the four watchers last
  observed.
\<close>

record world =
  inertiaForm :: inertia_form
  vee :: vee_form
  isLoginOpen :: bool
  toasts :: "toast list"
  posts :: "(string \<times> login_fields) list"
  callbacks :: "callback list"
  seen_email :: string
  seen_password :: string
  seen_remember :: bool
  seen_errors :: error_map

section \<open>The schema (lines 40-55)\<close>

text \<open>
  A zod issue is a path and a message. Every check of a string schema runs, in the order
  written, and each failed check adds its issue. The pattern that \<^verbatim>\<open>.email()\<close> tests
  is not part of the component, so it is the parameter \<open>is_email\<close>.
\<close>

type_synonym issue = "string \<times> string"

definition email_issues :: "(string \<Rightarrow> bool) \<Rightarrow> string \<Rightarrow> issue list" where
  "email_issues is_email s =
     (if is_email s then [] else [(''email'', ''Please enter a valid email address'')]) @
     (if length s < 1 then [(''email'', ''Email is required'')] else [])"

definition password_issues :: "string \<Rightarrow> issue list" where
  "password_issues s =
     (if length s < 1 then [(''password'', ''Password must be at least 6 characters'')] else [])"

text \<open>\<^verbatim>\<open>z.boolean().optional()\<close> accepts every boolean.\<close>

definition remember_issues :: "bool \<Rightarrow> issue list" where
  "remember_issues b = []"

definition formSchema_issues :: "(string \<Rightarrow> bool) \<Rightarrow> login_fields \<Rightarrow> issue list" where
  "formSchema_issues is_email v =
     email_issues is_email (email v) @ password_issues (password v) @ remember_issues (remember v)"

text \<open>The error shown for a path is the first message reported for it.\<close>

definition formSchema_validate :: "(string \<Rightarrow> bool) \<Rightarrow> login_fields \<Rightarrow> error_map" where
  "formSchema_validate is_email v = map_of (formSchema_issues is_email v)"

section \<open>The Inertia form (lines 59-67)\<close>

definition defaults :: login_fields where
  "defaults = \<lparr>email = '''', password = '''', remember = False\<rparr>"

definition fields_of :: "inertia_form \<Rightarrow> login_fields" where
  "fields_of f = \<lparr>email = email f, password = password f, remember = remember f\<rparr>"

text \<open>An assignment to a field of the form, as \<^verbatim>\<open>v-model\<close> and the checkbox handler make.\<close>

fun assign :: "field_write \<Rightarrow> inertia_form \<Rightarrow> inertia_form" where
  "assign (WriteEmail s) f = f\<lparr>email := s\<rparr>"
| "assign (WritePassword s) f = f\<lparr>password := s\<rparr>"
| "assign (WriteRemember b) f = f\<lparr>remember := b\<rparr>"

text \<open>
  Modelled from the spec: \<^verbatim>\<open>reset\<close> of the Inertia form is not part of the component.
  Section 4.1: "if given, resets only that field to its default; if omitted, resets all
  fields and clears errors".
\<close>

fun reset :: "field option \<Rightarrow> inertia_form \<Rightarrow> inertia_form" where
  "reset (Some Email) f = f\<lparr>email := email defaults\<rparr>"
| "reset (Some Password) f = f\<lparr>password := password defaults\<rparr>"
| "reset (Some Remember) f = f\<lparr>remember := remember defaults\<rparr>"
| "reset None f =
     f\<lparr>email := email defaults, password := password defaults,
       remember := remember defaults, errors := Map.empty\<rparr>"

text \<open>
  Modelled from the spec: \<^verbatim>\<open>clearErrors\<close> of the Inertia form is not part of the
  component. Section 4.1: "empties errors without touching values or processing".
\<close>

definition clearErrors :: "inertia_form \<Rightarrow> inertia_form" where
  "clearErrors f = f\<lparr>errors := Map.empty\<rparr>"

section \<open>The vee-validate form (lines 72-80)\<close>

text \<open>
  Modelled from the spec: \<^verbatim>\<open>setFieldValue\<close> of vee-validate is not part of the
  component. Section 4.2: "overwrites the projected value".
\<close>

fun setFieldValue :: "field_write \<Rightarrow> vee_form \<Rightarrow> vee_form" where
  "setFieldValue (WriteEmail s) v = v\<lparr>vee_values := (vee_values v)\<lparr>email := s\<rparr>\<rparr>"
| "setFieldValue (WritePassword s) v = v\<lparr>vee_values := (vee_values v)\<lparr>password := s\<rparr>\<rparr>"
| "setFieldValue (WriteRemember b) v = v\<lparr>vee_values := (vee_values v)\<lparr>remember := b\<rparr>\<rparr>"

text \<open>
  Modelled from the spec: \<^verbatim>\<open>setErrors\<close> of vee-validate is not part of the
  component. Section 4.2: "full replace of the local error mapping from an external
  source".
\<close>

definition setErrors :: "error_map \<Rightarrow> vee_form \<Rightarrow> vee_form" where
  "setErrors e v = v\<lparr>vee_errors := e\<rparr>"

text \<open>
  Modelled from the spec: \<^verbatim>\<open>handleSubmit\<close> of vee-validate is not part of the
  component. Section 4.2, \<open>gate\<close>: it validates the store's values against the schema;
  with an error it keeps the error mapping for display and the submission does not
  proceed; with none it clears the store's errors and the callback runs (lines 109-110:
  "If client-side validation passes, the 'onSubmit' function is called").
\<close>

definition handleSubmit ::
  "(string \<Rightarrow> bool) \<Rightarrow> (world \<Rightarrow> world) \<Rightarrow> world \<Rightarrow> world" where
  "handleSubmit is_email cb w =
     (let errs = formSchema_validate is_email (vee_values (vee w)) in
      if errs = Map.empty then cb (w\<lparr>vee := setErrors Map.empty (vee w)\<rparr>)
      else w\<lparr>vee := setErrors errs (vee w)\<rparr>)"

section \<open>The watchers (lines 84-106)\<close>

text \<open>
  Modelled from the spec: \<^verbatim>\<open>watch\<close> of Vue is not part of the component. Section 4.3:
  on every change of the watched source the callback receives the new value. A watcher
  keeps the value it last observed and runs its callback when the source differs from it.
\<close>

definition watch_email :: "world \<Rightarrow> world" where
  "watch_email w =
     (let newValue = email (inertiaForm w) in
      if newValue = seen_email w then w
      else w\<lparr>vee := setFieldValue (WriteEmail newValue) (vee w), seen_email := newValue\<rparr>)"

definition watch_password :: "world \<Rightarrow> world" where
  "watch_password w =
     (let newValue = password (inertiaForm w) in
      if newValue = seen_password w then w
      else w\<lparr>vee := setFieldValue (WritePassword newValue) (vee w), seen_password := newValue\<rparr>)"

definition watch_remember :: "world \<Rightarrow> world" where
  "watch_remember w =
     (let newValue = remember (inertiaForm w) in
      if newValue = seen_remember w then w
      else w\<lparr>vee := setFieldValue (WriteRemember newValue) (vee w), seen_remember := newValue\<rparr>)"

text \<open>
  The callback of the fourth watcher tests \<^verbatim>\<open>if (newErrors)\<close>; an error object, empty
  or not, is truthy, so the test always passes.
\<close>

definition watch_errors :: "world \<Rightarrow> world" where
  "watch_errors w =
     (let newErrors = errors (inertiaForm w) in
      if newErrors = seen_errors w then w
      else w\<lparr>vee := setErrors newErrors (vee w), seen_errors := newErrors\<rparr>)"

text \<open>The four watchers run in the order in which the component created them.\<close>

definition settle :: "world \<Rightarrow> world" where
  "settle w = watch_errors (watch_remember (watch_password (watch_email w)))"

section \<open>Submission (lines 111-143)\<close>

definition toast_success :: "string \<Rightarrow> string \<Rightarrow> world \<Rightarrow> world" where
  "toast_success title description w = w\<lparr>toasts := toasts w @ [Toast_success title description]\<rparr>"

definition toast_error :: "string \<Rightarrow> string \<Rightarrow> world \<Rightarrow> world" where
  "toast_error title description w = w\<lparr>toasts := toasts w @ [Toast_error title description]\<rparr>"

text \<open>
  Modelled from the spec: the modal store (\<^verbatim>\<open>@/stores/modal\<close>) is not among the
  sources. Section 4.4: on success the orchestrator must "hide/close any bound visibility
  flag"; the flag bound to this dialog is \<^verbatim>\<open>isLoginOpen\<close> (line 156).
\<close>

fun hideModal :: "ModalEnum \<Rightarrow> world \<Rightarrow> world" where
  "hideModal LOGIN w = w\<lparr>isLoginOpen := False\<rparr>"

text \<open>
  JavaScript's \<^verbatim>\<open>||\<close> on values that are a string or \<^verbatim>\<open>undefined\<close>: the left operand
  when it is truthy (a non-empty string), the right operand otherwise.
\<close>

definition truthy :: "string option \<Rightarrow> bool" where
  "truthy v = (case v of None \<Rightarrow> False | Some s \<Rightarrow> s \<noteq> [])"

definition js_or :: "string option \<Rightarrow> string option \<Rightarrow> string option" where
  "js_or a b = (if truthy a then a else b)"

definition js_or_string :: "string option \<Rightarrow> string \<Rightarrow> string" where
  "js_or_string a d = (case a of None \<Rightarrow> d | Some s \<Rightarrow> if s \<noteq> [] then s else d)"

definition error_description :: "error_map \<Rightarrow> string" where
  "error_description errs =
     js_or_string (js_or (errs ''email'') (errs ''password'')) ''Check credentials and try again.''"

definition onSuccess :: "world \<Rightarrow> world" where
  "onSuccess w =
     (let w1 = hideModal LOGIN w;
          w2 = toast_success ''Login successful'' ''You have successfully logged in.'' w1
      in w2\<lparr>callbacks := callbacks w2 @ [OnSuccess]\<rparr>)"

definition onError :: "error_map \<Rightarrow> world \<Rightarrow> world" where
  "onError errs w =
     (let w1 = w\<lparr>inertiaForm := reset (Some Password) (inertiaForm w)\<rparr>;
          w2 = toast_error ''Login failed'' (error_description errs) w1
      in w2\<lparr>callbacks := callbacks w2 @ [OnError]\<rparr>)"

definition onFinish :: "world \<Rightarrow> world" where
  "onFinish w = w\<lparr>callbacks := callbacks w @ [OnFinish]\<rparr>"

text \<open>
  Modelled from the spec: \<^verbatim>\<open>post\<close> of the Inertia form is not part of the component.
  Section 4.1, \<open>submit\<close>: "if processing=true, rejected (no-op, no error surfaced)";
  otherwise it sets \<open>processing\<close> and dispatches the values to the transport.
\<close>

definition post :: "string \<Rightarrow> world \<Rightarrow> world" where
  "post url w =
     (if processing (inertiaForm w) then w
      else w\<lparr>inertiaForm := (inertiaForm w)\<lparr>processing := True\<rparr>,
             posts := posts w @ [(url, fields_of (inertiaForm w))]\<rparr>)"

text \<open>
  Modelled from the spec: the completion of a request is the work of the Inertia form.
  Section 4.1: "on completion invokes exactly one of onSuccess() or
  onError(remoteErrors), always followed by onFinish(), then sets processing=false";
  the errors of a failure are in \<^verbatim>\<open>inertiaForm.errors\<close> when \<^verbatim>\<open>onError\<close> runs
  (line 128). The three callbacks are the ones the component passes to \<^verbatim>\<open>post\<close>
  (lines 117-141). A completion answers a request that was dispatched: with none in
  flight there is nothing to complete.
\<close>

definition completion :: "outcome \<Rightarrow> world \<Rightarrow> world" where
  "completion out w =
     (if \<not> processing (inertiaForm w) then w
      else
        (let w1 = (case out of
                     Success \<Rightarrow> onSuccess w
                   | Failure errs \<Rightarrow> onError errs (w\<lparr>inertiaForm := (inertiaForm w)\<lparr>errors := errs\<rparr>\<rparr>));
             w2 = onFinish w1
         in w2\<lparr>inertiaForm := (inertiaForm w2)\<lparr>processing := False\<rparr>\<rparr>))"

text \<open>\<^verbatim>\<open>route("login")\<close> is the address of the route named \<open>login\<close>.\<close>

definition onSubmit :: "(string \<Rightarrow> bool) \<Rightarrow> world \<Rightarrow> world" where
  "onSubmit is_email w = handleSubmit is_email (post ''login'') w"

section \<open>The dialog (lines 146-151 and the template)\<close>

definition updateOpenState :: "bool \<Rightarrow> world \<Rightarrow> world" where
  "updateOpenState open w =
     (let w1 = w\<lparr>isLoginOpen := open\<rparr> in
      if \<not> open then w1\<lparr>inertiaForm := clearErrors (inertiaForm w1)\<rparr> else w1)"

text \<open>
  The submit button (lines 249-256) is disabled while \<^verbatim>\<open>inertiaForm.processing\<close>
  holds; a disabled submit button does not submit its form.
\<close>

definition submitButton_disabled :: "world \<Rightarrow> bool" where
  "submitButton_disabled w = processing (inertiaForm w)"

definition submitButton_click :: "(string \<Rightarrow> bool) \<Rightarrow> world \<Rightarrow> world" where
  "submitButton_click is_email w = (if submitButton_disabled w then w else onSubmit is_email w)"

text \<open>
  The three error blocks of the template (lines 226-243). A block is rendered when its
  \<^verbatim>\<open>v-if\<close> value is truthy; \<open>None\<close> stands for a block that is not rendered, and an
  interpolated \<^verbatim>\<open>undefined\<close> displays as the empty text.
\<close>

definition display :: "string option \<Rightarrow> string" where
  "display v = (case v of None \<Rightarrow> '''' | Some s \<Rightarrow> s)"

definition email_block :: "error_map \<Rightarrow> string option" where
  "email_block errs = (if truthy (errs ''email'') then Some (display (errs ''email'')) else None)"

definition password_block :: "error_map \<Rightarrow> string option" where
  "password_block errs = (if truthy (errs ''password'') then Some (display (errs ''remember'')) else None)"

definition remember_block :: "error_map \<Rightarrow> string option" where
  "remember_block errs = (if truthy (errs ''remember'') then Some (display (errs ''remember'')) else None)"

section \<open>The component as a whole\<close>

text \<open>
  The component right after \<^verbatim>\<open>script setup\<close> ran: both forms hold the initial values
  of lines 64-66 and 75-79, nothing is in flight, and each watcher has observed the
  initial value of its source. The flag of the modal store comes from outside.
\<close>

definition mount :: "bool \<Rightarrow> world" where
  "mount open =
     \<lparr>inertiaForm = \<lparr>email = '''', password = '''', remember = False,
                     errors = Map.empty, processing = False\<rparr>,
      vee = \<lparr>vee_values = \<lparr>email = '''', password = '''', remember = False\<rparr>,
             vee_errors = Map.empty\<rparr>,
      isLoginOpen = open, toasts = [], posts = [], callbacks = [],
      seen_email = '''', seen_password = '''', seen_remember = False,
      seen_errors = Map.empty\<rparr>"

text \<open>The events the component reacts to, one at a time.\<close>

datatype event =
    Input field_write
  | Settle
  | Submit
  | Complete outcome
  | OpenChange bool

fun step :: "(string \<Rightarrow> bool) \<Rightarrow> event \<Rightarrow> world \<Rightarrow> world" where
  "step is_email (Input a) w = w\<lparr>inertiaForm := assign a (inertiaForm w)\<rparr>"
| "step is_email Settle w = settle w"
| "step is_email Submit w = submitButton_click is_email w"
| "step is_email (Complete out) w = completion out w"
| "step is_email (OpenChange open) w = updateOpenState open w"

fun run :: "(string \<Rightarrow> bool) \<Rightarrow> event list \<Rightarrow> world \<Rightarrow> world" where
  "run is_email [] w = w"
| "run is_email (e # es) w = run is_email es (step is_email e w)"

definition mirrored :: "world \<Rightarrow> bool" where
  "mirrored w =
     (email (vee_values (vee w)) = email (inertiaForm w) \<and>
      password (vee_values (vee w)) = password (inertiaForm w) \<and>
      remember (vee_values (vee w)) = remember (inertiaForm w))"

text \<open>Each value watcher last observed what the store now holds for its field.\<close>

definition watchers_current :: "world \<Rightarrow> bool" where
  "watchers_current w =
     (seen_email w = email (vee_values (vee w)) \<and>
      seen_password w = password (vee_values (vee w)) \<and>
      seen_remember w = remember (vee_values (vee w)))"

section \<open>Concrete scenarios\<close>

text \<open>A stand-in for the email pattern, used only to run the component on examples.\<close>

definition has_at :: "string \<Rightarrow> bool" where
  "has_at s = (CHR ''@'' \<in> set s)"

text \<open>The user has typed an address and a one-letter password, and the watchers ran.\<close>

definition scenario_typed :: world where
  "scenario_typed =
     run has_at [Input (WriteEmail ''a@b.com''), Input (WritePassword ''x''), Settle] (mount True)"

text \<open>The user then pressed the submit button: the request is in flight.\<close>

definition scenario_inflight :: world where
  "scenario_inflight = step has_at Submit scenario_typed"

text \<open>The backend rejected that request with an error on the address.\<close>

definition scenario_rejected :: world where
  "scenario_rejected =
     settle (completion (Failure [''email'' \<mapsto> ''These credentials do not match our records.''])
       scenario_inflight)"

definition short_password :: login_fields where
  "short_password = \<lparr>email = ''a@b.com'', password = ''abc'', remember = False\<rparr>"

section \<open>Properties\<close>

lemmas watch_defs = watch_email_def watch_password_def watch_remember_def watch_errors_def

lemmas schema_defs = formSchema_validate_def formSchema_issues_def email_issues_def
  password_issues_def remember_issues_def

lemmas callback_defs = onSuccess_def onError_def onFinish_def toast_success_def toast_error_def

subsection \<open>The scenarios, evaluated\<close>

lemma map_of_issues_empty: "map_of xs = Map.empty \<longleftrightarrow> xs = []"
  by (cases xs) (auto simp: fun_eq_iff)

lemma maps_differ_at: "m1 k \<noteq> m2 k \<Longrightarrow> m1 \<noteq> m2"
  by auto

lemma scenario_typed_eval:
  "scenario_typed =
     \<lparr>inertiaForm = \<lparr>email = ''a@b.com'', password = ''x'', remember = False,
                     errors = Map.empty, processing = False\<rparr>,
      vee = \<lparr>vee_values = \<lparr>email = ''a@b.com'', password = ''x'', remember = False\<rparr>,
             vee_errors = Map.empty\<rparr>,
      isLoginOpen = True, toasts = [], posts = [], callbacks = [],
      seen_email = ''a@b.com'', seen_password = ''x'', seen_remember = False,
      seen_errors = Map.empty\<rparr>"
  by (simp add: scenario_typed_def mount_def settle_def watch_defs Let_def)

lemma scenario_inflight_eval:
  "scenario_inflight =
     \<lparr>inertiaForm = \<lparr>email = ''a@b.com'', password = ''x'', remember = False,
                     errors = Map.empty, processing = True\<rparr>,
      vee = \<lparr>vee_values = \<lparr>email = ''a@b.com'', password = ''x'', remember = False\<rparr>,
             vee_errors = Map.empty\<rparr>,
      isLoginOpen = True, toasts = [],
      posts = [(''login'', \<lparr>email = ''a@b.com'', password = ''x'', remember = False\<rparr>)],
      callbacks = [],
      seen_email = ''a@b.com'', seen_password = ''x'', seen_remember = False,
      seen_errors = Map.empty\<rparr>"
  by (simp add: scenario_inflight_def scenario_typed_eval submitButton_click_def
        submitButton_disabled_def onSubmit_def handleSubmit_def post_def setErrors_def
        schema_defs has_at_def fields_of_def Let_def)

lemma scenario_rejected_eval:
  "scenario_rejected =
     \<lparr>inertiaForm = \<lparr>email = ''a@b.com'', password = '''', remember = False,
                     errors = [''email'' \<mapsto> ''These credentials do not match our records.''],
                     processing = False\<rparr>,
      vee = \<lparr>vee_values = \<lparr>email = ''a@b.com'', password = '''', remember = False\<rparr>,
             vee_errors = [''email'' \<mapsto> ''These credentials do not match our records.'']\<rparr>,
      isLoginOpen = True,
      toasts = [Toast_error ''Login failed'' ''These credentials do not match our records.''],
      posts = [(''login'', \<lparr>email = ''a@b.com'', password = ''x'', remember = False\<rparr>)],
      callbacks = [OnError, OnFinish],
      seen_email = ''a@b.com'', seen_password = '''', seen_remember = False,
      seen_errors = [''email'' \<mapsto> ''These credentials do not match our records.'']\<rparr>"
proof -
  have ne: "[''email'' \<mapsto> ''These credentials do not match our records.''] \<noteq> Map.empty"
    by simp
  show ?thesis
    using ne
    by (simp add: scenario_rejected_def scenario_inflight_eval completion_def callback_defs
          error_description_def js_or_def js_or_string_def truthy_def defaults_def
          settle_def watch_defs setErrors_def Let_def)
qed

subsection \<open>The watchers keep the store in step\<close>

lemma settle_inertiaForm: "inertiaForm (settle w) = inertiaForm w"
  by (simp add: settle_def watch_defs Let_def)

lemma settle_mirrored: "watchers_current w \<Longrightarrow> mirrored (settle w)"
  by (simp add: settle_def watch_defs Let_def watchers_current_def mirrored_def setErrors_def)

lemma settle_watchers_current: "watchers_current w \<Longrightarrow> watchers_current (settle w)"
  by (simp add: settle_def watch_defs Let_def watchers_current_def setErrors_def)

lemma completion_watchers_current: "watchers_current w \<Longrightarrow> watchers_current (completion out w)"
  by (cases out) (simp_all add: completion_def callback_defs Let_def watchers_current_def)

lemma submit_watchers_current:
  "watchers_current w \<Longrightarrow> watchers_current (submitButton_click is_email w)"
  by (simp add: submitButton_click_def onSubmit_def handleSubmit_def post_def setErrors_def
        Let_def watchers_current_def)

lemma step_watchers_current:
  assumes "watchers_current w"
  shows "watchers_current (step is_email e w)"
proof (cases e)
  case (Input a)
  with assms show ?thesis by (simp add: watchers_current_def)
next
  case Settle
  with assms show ?thesis by (simp add: settle_watchers_current)
next
  case Submit
  with assms show ?thesis by (simp add: submit_watchers_current)
next
  case (Complete out)
  with assms show ?thesis by (simp add: completion_watchers_current)
next
  case (OpenChange b)
  with assms show ?thesis
    by (simp add: updateOpenState_def clearErrors_def Let_def watchers_current_def)
qed

lemma run_watchers_current: "watchers_current w \<Longrightarrow> watchers_current (run is_email es w)"
  by (induction es arbitrary: w) (simp_all add: step_watchers_current)

lemma mount_watchers_current: "watchers_current (mount b)"
  by (simp add: mount_def watchers_current_def)

subsection \<open>The claims\<close>

text \<open>
  Claim C1. Whatever the component has gone through since it was mounted (any sequence
  of field writes, watcher runs, submissions, completions and open-state changes), once
  the watchers have run the values of the validation store equal the fields of the
  Inertia form, field for field; and a run of the watchers never writes the Inertia
  form.
\<close>

theorem mirroring:
  "mirrored (settle (run is_email es (mount b))) \<and>
   inertiaForm (settle w) = inertiaForm w"
  by (simp add: settle_inertiaForm settle_mirrored run_watchers_current mount_watchers_current)

theorem mirroring_witness:
  "mirrored (settle (run has_at
      [Input (WriteEmail ''a@b.com''), Settle, Input (WritePassword ''x''),
       Input (WriteRemember True), Input (WriteEmail ''c@d.org'')] (mount True))) \<and>
   vee_values (vee (settle (run has_at
      [Input (WriteEmail ''a@b.com''), Settle, Input (WritePassword ''x''),
       Input (WriteRemember True), Input (WriteEmail ''c@d.org'')] (mount True))))
     = \<lparr>email = ''c@d.org'', password = ''x'', remember = True\<rparr>"
  using mirroring [of has_at
      "[Input (WriteEmail ''a@b.com''), Settle, Input (WritePassword ''x''),
        Input (WriteRemember True), Input (WriteEmail ''c@d.org'')]" True "mount True"]
  by (simp add: mount_def settle_def watch_defs Let_def)

text \<open>
  Claim C2. When the errors of the Inertia form change from a mapping \<open>E1\<close>, which the
  watcher had observed, to a different mapping \<open>E2\<close>, then after the watchers have run
  the errors of the validation store are \<open>E2\<close>: every key of \<open>E2\<close> with its message,
  and no other key.
\<close>

theorem error_replace:
  assumes "seen_errors w = errors (inertiaForm w)" and "E2 \<noteq> errors (inertiaForm w)"
  shows "vee_errors (vee (settle (w\<lparr>inertiaForm := (inertiaForm w)\<lparr>errors := E2\<rparr>\<rparr>))) = E2"
  using assms by (simp add: settle_def watch_defs Let_def setErrors_def)

theorem error_replace_witness:
  "seen_errors scenario_rejected = errors (inertiaForm scenario_rejected) \<and>
   [''password'' \<mapsto> ''Invalid credentials''] \<noteq> errors (inertiaForm scenario_rejected) \<and>
   vee_errors (vee scenario_rejected) ''email''
     = Some ''These credentials do not match our records.'' \<and>
   vee_errors (vee (settle (scenario_rejected
      \<lparr>inertiaForm := (inertiaForm scenario_rejected)
         \<lparr>errors := [''password'' \<mapsto> ''Invalid credentials'']\<rparr>\<rparr>))) ''email'' = None \<and>
   vee_errors (vee (settle (scenario_rejected
      \<lparr>inertiaForm := (inertiaForm scenario_rejected)
         \<lparr>errors := [''password'' \<mapsto> ''Invalid credentials'']\<rparr>\<rparr>))) ''password''
     = Some ''Invalid credentials''"
proof -
  have seen: "seen_errors scenario_rejected = errors (inertiaForm scenario_rejected)"
    by (simp add: scenario_rejected_eval)
  have changed: "[''password'' \<mapsto> ''Invalid credentials''] \<noteq> errors (inertiaForm scenario_rejected)"
    by (rule maps_differ_at [of _ "''password''"]) (simp add: scenario_rejected_eval)
  have before: "vee_errors (vee scenario_rejected) ''email''
     = Some ''These credentials do not match our records.''"
    by (simp add: scenario_rejected_eval)
  show ?thesis
    using seen changed before error_replace [OF seen changed]
    by simp
qed

text \<open>
  Claim C3. While a submission is in flight, the submit button does nothing at all, and
  a call of \<open>onSubmit\<close> hands no second request to the transport, runs no callback and
  leaves the Inertia form (fields, errors and in-flight flag) as it was.
\<close>

theorem no_duplicate_submit:
  assumes "processing (inertiaForm w)"
  shows "submitButton_click is_email w = w \<and>
         inertiaForm (onSubmit is_email w) = inertiaForm w \<and>
         posts (onSubmit is_email w) = posts w \<and>
         callbacks (onSubmit is_email w) = callbacks w"
  using assms
  by (simp add: submitButton_click_def submitButton_disabled_def onSubmit_def handleSubmit_def
        post_def Let_def)

theorem no_duplicate_submit_witness:
  "processing (inertiaForm scenario_inflight) \<and>
   submitButton_click has_at scenario_inflight = scenario_inflight \<and>
   posts (onSubmit has_at scenario_inflight)
     = [(''login'', \<lparr>email = ''a@b.com'', password = ''x'', remember = False\<rparr>)]"
proof -
  have busy: "processing (inertiaForm scenario_inflight)"
    by (simp add: scenario_inflight_eval)
  show ?thesis
    using busy no_duplicate_submit [OF busy, of has_at]
    by (simp add: scenario_inflight_eval)
qed

text \<open>
  Claim C4. When the schema reports an error for the values of the validation store, the
  submission attempt hands nothing to the transport, runs no callback, and leaves the
  Inertia form untouched; with no earlier request in flight nothing is in flight
  afterwards either, so no completion, and with it no \<open>onFinish\<close>, follows the attempt.
\<close>

theorem gate_blocks_network:
  assumes "formSchema_validate is_email (vee_values (vee w)) \<noteq> Map.empty"
  shows "posts (onSubmit is_email w) = posts w \<and>
         callbacks (onSubmit is_email w) = callbacks w \<and>
         inertiaForm (onSubmit is_email w) = inertiaForm w \<and>
         (\<not> processing (inertiaForm w) \<longrightarrow>
            completion out (onSubmit is_email w) = onSubmit is_email w)"
  using assms
  by (simp add: onSubmit_def handleSubmit_def Let_def completion_def)

theorem gate_blocks_network_witness:
  "formSchema_validate has_at (vee_values (vee (mount True))) \<noteq> Map.empty \<and>
   \<not> processing (inertiaForm (mount True)) \<and>
   posts (onSubmit has_at (mount True)) = [] \<and>
   callbacks (completion Success (onSubmit has_at (mount True))) = [] \<and>
   vee_errors (vee (onSubmit has_at (mount True))) ''email''
     = Some ''Please enter a valid email address''"
proof -
  have fails: "formSchema_validate has_at (vee_values (vee (mount True))) \<noteq> Map.empty"
    by (simp add: map_of_issues_empty schema_defs mount_def has_at_def)
  have idle: "\<not> processing (inertiaForm (mount True))"
    by (simp add: mount_def)
  have shown: "vee_errors (vee (onSubmit has_at (mount True))) ''email''
     = Some ''Please enter a valid email address''"
    by (simp add: onSubmit_def handleSubmit_def setErrors_def map_of_issues_empty schema_defs
          mount_def has_at_def Let_def)
  have "posts (mount True) = []" and "callbacks (mount True) = []"
    by (simp_all add: mount_def)
  then show ?thesis
    using fails idle shown gate_blocks_network [OF fails, of Success]
    by simp
qed

text \<open>
  Claim C5. The failure callback sets the password to the empty string and leaves the
  address and the remember flag as they were; the same holds for the completion of an
  in-flight submission with a failure.
\<close>

theorem failure_resets_password:
  "password (inertiaForm (onError E w)) = [] \<and>
   email (inertiaForm (onError E w)) = email (inertiaForm w) \<and>
   remember (inertiaForm (onError E w)) = remember (inertiaForm w) \<and>
   (processing (inertiaForm w) \<longrightarrow>
      password (inertiaForm (completion (Failure E) w)) = [] \<and>
      email (inertiaForm (completion (Failure E) w)) = email (inertiaForm w) \<and>
      remember (inertiaForm (completion (Failure E) w)) = remember (inertiaForm w))"
  by (simp add: completion_def callback_defs defaults_def Let_def)

theorem failure_resets_password_witness:
  "processing (inertiaForm scenario_inflight) \<and>
   password (inertiaForm scenario_inflight) = ''x'' \<and>
   fields_of (inertiaForm (completion (Failure [''password'' \<mapsto> ''Invalid credentials''])
      scenario_inflight))
     = \<lparr>email = ''a@b.com'', password = '''', remember = False\<rparr>"
proof -
  have busy: "processing (inertiaForm scenario_inflight)"
    by (simp add: scenario_inflight_eval)
  show ?thesis
    using busy
      failure_resets_password [of "[''password'' \<mapsto> ''Invalid credentials'']" scenario_inflight]
    by (simp add: fields_of_def scenario_inflight_eval)
qed

text \<open>
  Claim C6. The failure callback emits one error notification titled "Login failed".
  Its description is the message under \<open>email\<close> when that is a non-empty string;
  otherwise the message under \<open>password\<close> when that is a non-empty string; otherwise
  "Check credentials and try again.".
\<close>

theorem failure_description:
  "toasts (onError E w) = toasts w @ [Toast_error ''Login failed'' (error_description E)] \<and>
   (\<forall>m. E ''email'' = Some m \<and> m \<noteq> [] \<longrightarrow> error_description E = m) \<and>
   (\<forall>m. (E ''email'' = None \<or> E ''email'' = Some []) \<and> E ''password'' = Some m \<and> m \<noteq> []
        \<longrightarrow> error_description E = m) \<and>
   ((E ''email'' = None \<or> E ''email'' = Some []) \<and>
    (E ''password'' = None \<or> E ''password'' = Some [])
        \<longrightarrow> error_description E = ''Check credentials and try again.'')"
  by (auto simp: callback_defs error_description_def js_or_def js_or_string_def truthy_def Let_def)

theorem failure_description_witness:
  "toasts (onError [''password'' \<mapsto> ''Invalid credentials''] scenario_inflight)
     = [Toast_error ''Login failed'' ''Invalid credentials''] \<and>
   toasts (onError [''email'' \<mapsto> ''Unknown address'', ''password'' \<mapsto> ''Invalid credentials'']
      scenario_inflight)
     = [Toast_error ''Login failed'' ''Unknown address''] \<and>
   toasts (onError [''email'' \<mapsto> ''''] scenario_inflight)
     = [Toast_error ''Login failed'' ''Check credentials and try again.'']"
  using failure_description [of "[''password'' \<mapsto> ''Invalid credentials'']" scenario_inflight]
    failure_description
      [of "[''email'' \<mapsto> ''Unknown address'', ''password'' \<mapsto> ''Invalid credentials'']"
          scenario_inflight]
    failure_description [of "[''email'' \<mapsto> '''']" scenario_inflight]
  by (simp add: scenario_inflight_eval)

text \<open>
  Claim C7. The completion of an in-flight submission with success closes the dialog's
  flag, adds exactly one notification, the success notification, and leaves the address,
  the password and the remember flag as they were.
\<close>

theorem success_effects:
  assumes "processing (inertiaForm w)"
  shows "\<not> isLoginOpen (completion Success w) \<and>
         toasts (completion Success w) =
           toasts w @ [Toast_success ''Login successful'' ''You have successfully logged in.''] \<and>
         fields_of (inertiaForm (completion Success w)) = fields_of (inertiaForm w)"
  using assms
  by (simp add: completion_def callback_defs fields_of_def Let_def)

theorem success_effects_witness:
  "processing (inertiaForm scenario_inflight) \<and>
   isLoginOpen scenario_inflight \<and>
   \<not> isLoginOpen (completion Success scenario_inflight) \<and>
   toasts (completion Success scenario_inflight)
     = [Toast_success ''Login successful'' ''You have successfully logged in.''] \<and>
   fields_of (inertiaForm (completion Success scenario_inflight))
     = \<lparr>email = ''a@b.com'', password = ''x'', remember = False\<rparr>"
proof -
  have busy: "processing (inertiaForm scenario_inflight)"
    by (simp add: scenario_inflight_eval)
  show ?thesis
    using busy success_effects [OF busy]
    by (simp add: fields_of_def scenario_inflight_eval)
qed

text \<open>
  Claim C8. A change of the open state to closed empties the errors of the Inertia form
  and leaves its fields and its in-flight flag as they were. Closing twice is the same
  as closing once; closing a dialog that is closed and has no errors changes nothing;
  closing with no errors only clears the flag. A change to open sets the flag and
  clears nothing.
\<close>

theorem close_clears_errors:
  "errors (inertiaForm (updateOpenState False w)) = Map.empty \<and>
   fields_of (inertiaForm (updateOpenState False w)) = fields_of (inertiaForm w) \<and>
   processing (inertiaForm (updateOpenState False w)) = processing (inertiaForm w) \<and>
   \<not> isLoginOpen (updateOpenState False w) \<and>
   updateOpenState False (updateOpenState False w) = updateOpenState False w \<and>
   (\<not> isLoginOpen w \<and> errors (inertiaForm w) = Map.empty \<longrightarrow> updateOpenState False w = w) \<and>
   (errors (inertiaForm w) = Map.empty \<longrightarrow> updateOpenState False w = w\<lparr>isLoginOpen := False\<rparr>) \<and>
   updateOpenState True w = w\<lparr>isLoginOpen := True\<rparr>"
  by (simp add: updateOpenState_def clearErrors_def fields_of_def Let_def)

theorem close_clears_errors_witness:
  "errors (inertiaForm scenario_rejected) ''email''
     = Some ''These credentials do not match our records.'' \<and>
   errors (inertiaForm (updateOpenState False scenario_rejected)) ''email'' = None \<and>
   fields_of (inertiaForm (updateOpenState False scenario_rejected))
     = \<lparr>email = ''a@b.com'', password = '''', remember = False\<rparr> \<and>
   \<not> isLoginOpen (mount False) \<and> errors (inertiaForm (mount False)) = Map.empty \<and>
   updateOpenState False (mount False) = mount False"
proof -
  have closed: "\<not> isLoginOpen (mount False)" and clean: "errors (inertiaForm (mount False)) = Map.empty"
    by (simp_all add: mount_def)
  have before: "errors (inertiaForm scenario_rejected) ''email''
     = Some ''These credentials do not match our records.''"
    by (simp add: scenario_rejected_eval)
  have fields: "fields_of (inertiaForm scenario_rejected)
     = \<lparr>email = ''a@b.com'', password = '''', remember = False\<rparr>"
    by (simp add: fields_of_def scenario_rejected_eval)
  show ?thesis
    using closed clean before fields
      close_clears_errors [of scenario_rejected] close_clears_errors [of "mount False"]
    by simp
qed

text \<open>
  Claim C9, evaluated on the template. With a backend error on the password only, the
  block that is rendered for the password shows the empty text, not the password's
  message; with an error on the remember flag as well, it shows that message. The
  blocks for the address and for the remember flag show their own messages.
\<close>

theorem password_block_shows_remember:
  "password_block [''password'' \<mapsto> ''Invalid credentials''] = Some '''' \<and>
   password_block [''password'' \<mapsto> ''Invalid credentials'', ''remember'' \<mapsto> ''Must be a boolean'']
     = Some ''Must be a boolean'' \<and>
   email_block [''email'' \<mapsto> ''Unknown address''] = Some ''Unknown address'' \<and>
   remember_block [''remember'' \<mapsto> ''Must be a boolean''] = Some ''Must be a boolean''"
  by (simp add: password_block_def email_block_def remember_block_def truthy_def display_def)

text \<open>
  Claim C10. The schema reports no error for a password that is not empty, whatever its
  length (so also for lengths 1 to 5), and for the empty password it reports
  "Password must be at least 6 characters".
\<close>

theorem gate_password_rule:
  "(password v \<noteq> [] \<longrightarrow> formSchema_validate is_email v ''password'' = None) \<and>
   (1 \<le> length (password v) \<and> length (password v) \<le> 5 \<longrightarrow>
      formSchema_validate is_email v ''password'' = None) \<and>
   (password v = [] \<longrightarrow>
      formSchema_validate is_email v ''password'' = Some ''Password must be at least 6 characters'')"
  by (auto simp: schema_defs)

theorem gate_password_rule_witness:
  "password short_password \<noteq> [] \<and>
   1 \<le> length (password short_password) \<and> length (password short_password) \<le> 5 \<and>
   formSchema_validate has_at short_password ''password'' = None \<and>
   password (short_password\<lparr>password := ''''\<rparr>) = [] \<and>
   formSchema_validate has_at (short_password\<lparr>password := ''''\<rparr>) ''password''
     = Some ''Password must be at least 6 characters''"
  using gate_password_rule [of short_password has_at]
    gate_password_rule [of "short_password\<lparr>password := ''''\<rparr>" has_at]
  by (simp add: short_password_def)

end
